theory Spec2Isabelle
  imports Main "HOL-Library.Word"
begin

section \<open>Data model of rmw\_data\_types.cpp\<close>

text \<open>
  Pointers are addresses; a pointer that may be null is an \<open>option\<close>, with \<open>None\<close> for
  \<open>nullptr\<close>. Handles of the transport (payloads, queries, replies) are opaque identifiers.
  A \<open>std::unique_ptr\<close> handed to a queue or to the query map owns an object, so it is
  modelled by the object; the null \<open>unique_ptr\<close> appears only as the \<open>None\<close> a pop or a take
  returns.
\<close>

type_synonym ptr = nat
type_synonym rmw_event_callback_t = nat
type_synonym condition_variable = nat
type_synonym zc_owned_payload_t = nat
type_synonym z_owned_query_t = nat
type_synonym z_sample_t = nat
type_synonym size_t = "64 word"

text \<open>
  Everything a member function does besides changing its object is recorded, in program
  order, as a list of effects: a record of the rcutils logger (severity, logger name, format
  string; the formatted arguments are left out), the rmw error message, a call of a user
  callback with its two arguments, \<open>notify_one\<close> on a condition variable, and \<open>z_drop\<close>
  of a payload.
\<close>

datatype log_severity = DEBUG | INFO | WARN | ERROR | FATAL

datatype effect =
    RCUTILS_LOG_NAMED log_severity string string
  | RMW_SET_ERROR_MSG string
  | callback_call rmw_event_callback_t "ptr option" nat
  | notify_one condition_variable
  | z_drop zc_owned_payload_t

record saved_msg_data =
  payload :: zc_owned_payload_t
  recv_timestamp :: "64 word"
  publisher_gid :: "8 word list"

text \<open>
  Modelled from the spec: the struct of \<open>user_callback_data_\<close> is declared in
  rmw\_data\_types.hpp, which is not among the sources, so the types of its members are not
  known from the code. The fields are the ones rmw\_data\_types.cpp reads and writes; the
  three \<open>event_\<close> arrays are indexed by the event id. The code only increments the counters
  by one, resets them to zero and hands them to the callback; they are the unread counts of
  the spec, which are never lost, and are natural numbers here.
\<close>

record user_callback_data_t =
  callback :: "rmw_event_callback_t option"
  user_data :: "ptr option"
  unread_count :: nat
  event_callback :: "nat \<Rightarrow> rmw_event_callback_t option"
  event_data :: "nat \<Rightarrow> ptr option"
  event_unread_count :: "nat \<Rightarrow> nat"

record rmw_qos_profile_t =
  depth :: nat

text \<open>
  Every entity has the callback data; subscription, service and client also have the
  condition variable of the wait set, and extend the two with their queues.
\<close>

record callback_data_owner =
  user_callback_data :: user_callback_data_t

record entity_data = callback_data_owner +
  condition :: "condition_variable option"

record rmw_subscription_data_t = entity_data +
  adapted_qos_profile :: rmw_qos_profile_t
  message_queue :: "saved_msg_data list"

section \<open>Wait-set bridge\<close>

text \<open>
  \<open>attach_condition\<close>, \<open>detach_condition\<close> and \<open>notify\<close> have the same text in
  \<open>rmw_subscription_data_t\<close>, \<open>rmw_service_data_t\<close> and \<open>rmw_client_data_t\<close>; they are
  defined once, on the common part of the three records.
\<close>

definition attach_condition ::
  "condition_variable option \<Rightarrow> 'a entity_data_scheme \<Rightarrow> 'a entity_data_scheme" where
  "attach_condition condition_variable s = s\<lparr>condition := condition_variable\<rparr>"

definition detach_condition :: "'a entity_data_scheme \<Rightarrow> 'a entity_data_scheme" where
  "detach_condition s = s\<lparr>condition := None\<rparr>"

definition notify :: "'a entity_data_scheme \<Rightarrow> effect list" where
  "notify s = (case condition s of None \<Rightarrow> [] | Some cv \<Rightarrow> [notify_one cv])"

section \<open>New-data callback\<close>

text \<open>
  The block "Trigger the user provided event callback if available" of \<open>add_new_message\<close>,
  \<open>add_new_query\<close> and \<open>add_new_reply\<close>: call the callback with count 1, or count the event
  as unread.
\<close>

definition trigger_user_callback ::
  "user_callback_data_t \<Rightarrow> user_callback_data_t \<times> effect list" where
  "trigger_user_callback u =
     (case callback u of
        Some cb \<Rightarrow> (u, [callback_call cb (user_data u) 1])
      | None \<Rightarrow> (u\<lparr>unread_count := unread_count u + 1\<rparr>, []))"

section \<open>Subscription: the message queue\<close>

definition message_queue_is_empty :: "rmw_subscription_data_t \<Rightarrow> bool" where
  "message_queue_is_empty s = (message_queue s = [])"

definition pop_next_message ::
  "rmw_subscription_data_t \<Rightarrow> saved_msg_data option \<times> rmw_subscription_data_t" where
  "pop_next_message s =
     (case message_queue s of
        [] \<Rightarrow> (None, s)
      | msg_data # rest \<Rightarrow> (Some msg_data, s\<lparr>message_queue := rest\<rparr>))"

definition discard_msg :: string where
  "discard_msg = ''Message queue depth of %ld reached, discarding oldest message for subscription for %s''"

definition add_new_message ::
  "saved_msg_data \<Rightarrow> string \<Rightarrow> rmw_subscription_data_t
     \<Rightarrow> rmw_subscription_data_t \<times> effect list" where
  "add_new_message msg topic_name s =
     (let (q, e1) =
            (if length (message_queue s) \<ge> depth (adapted_qos_profile s) then
               (case message_queue s of
                  old # rest \<Rightarrow>
                    (rest, [RCUTILS_LOG_NAMED DEBUG ''rmw_zenoh_cpp'' discard_msg,
                            z_drop (payload old)])
                | [] \<Rightarrow> ([], [RCUTILS_LOG_NAMED DEBUG ''rmw_zenoh_cpp'' discard_msg]))
             else (message_queue s, []));
          (u, e2) = trigger_user_callback (user_callback_data s);
          s' = s\<lparr>message_queue := q @ [msg], user_callback_data := u\<rparr>
      in (s', e1 @ e2 @ notify s'))"

text \<open>A run of pushes: \<open>add_new_message\<close> once for each message of a list, in order.\<close>

fun add_new_messages ::
  "saved_msg_data list \<Rightarrow> string \<Rightarrow> rmw_subscription_data_t
     \<Rightarrow> rmw_subscription_data_t \<times> effect list" where
  "add_new_messages [] topic_name s = (s, [])"
| "add_new_messages (msg # msgs) topic_name s =
     (let (s1, e1) = add_new_message msg topic_name s;
          (s2, e2) = add_new_messages msgs topic_name s1
      in (s2, e1 @ e2))"

section \<open>Subscription: the new-message callback\<close>

text \<open>
  \<open>set_on_new_message_callback\<close>, \<open>set_on_new_request_callback\<close> and
  \<open>set_on_new_response_callback\<close> have the same body, on the callback data of their
  entity. The callback is called with the \<open>user_data\<close> passed in, before it is stored.
\<close>

definition set_on_new_callback ::
  "ptr option \<Rightarrow> rmw_event_callback_t option \<Rightarrow> user_callback_data_t
     \<Rightarrow> user_callback_data_t \<times> effect list" where
  "set_on_new_callback data cb_arg u =
     (case cb_arg of
        Some cb \<Rightarrow>
          (let (u1, e) =
                 (if unread_count u \<noteq> 0
                  then (u\<lparr>unread_count := 0\<rparr>, [callback_call cb data (unread_count u)])
                  else (u, []))
           in (u1\<lparr>user_data := data, callback := Some cb\<rparr>, e))
      | None \<Rightarrow> (u\<lparr>user_data := None, callback := None\<rparr>, []))"

definition set_on_new_message_callback ::
  "ptr option \<Rightarrow> rmw_event_callback_t option \<Rightarrow> rmw_subscription_data_t
     \<Rightarrow> rmw_subscription_data_t \<times> effect list" where
  "set_on_new_message_callback data cb_arg s =
     (let (u, e) = set_on_new_callback data cb_arg (user_callback_data s)
      in (s\<lparr>user_callback_data := u\<rparr>, e))"

section \<open>Event callbacks of publisher and subscription\<close>

text \<open>
  What the two source files take from detail/event.hpp and detail/identifier.hpp, which are
  not among the sources: the enumerators of \<open>rmw_zenoh_event_type_t\<close> that the code names
  (as their integer values), the table \<open>event_map\<close> from the rmw event types to them, and
  the identifier of the implementation. They are parameters of the functions that use them.
\<close>

type_synonym rmw_event_type_t = nat
type_synonym rmw_zenoh_event_type_t = nat

record detail_hpp =
  ZENOH_EVENT_REQUESTED_QOS_INCOMPATIBLE :: rmw_zenoh_event_type_t
  ZENOH_EVENT_OFFERED_QOS_INCOMPATIBLE :: rmw_zenoh_event_type_t
  ZENOH_EVENT_ID_MAX :: rmw_zenoh_event_type_t
  event_map :: "rmw_event_type_t \<Rightarrow> rmw_zenoh_event_type_t option"
  rmw_zenoh_identifier :: string

type_synonym rmw_publisher_data_t = callback_data_owner

definition not_configured_msg :: string where
  "not_configured_msg =
     ''RMW Zenoh is not correctly configured to handle rmw_zenoh_event_type_t [%d].Report this bug.''"

text \<open>
  \<open>rmw_publisher_data_t::event_set_callback\<close> and
  \<open>rmw_subscription_data_t::event_set_callback\<close> have the same text; the definition is on
  the part the two records share.
\<close>

definition event_set_callback ::
  "detail_hpp \<Rightarrow> rmw_zenoh_event_type_t \<Rightarrow> rmw_event_callback_t option \<Rightarrow> ptr option
     \<Rightarrow> 'a callback_data_owner_scheme \<Rightarrow> 'a callback_data_owner_scheme \<times> effect list" where
  "event_set_callback h event_id cb_arg data s =
     (if event_id > ZENOH_EVENT_ID_MAX h then (s, [RMW_SET_ERROR_MSG not_configured_msg])
      else
        (let u = user_callback_data s;
             u1 = u\<lparr>event_callback := (event_callback u)(event_id := cb_arg),
                     event_data := (event_data u)(event_id := data)\<rparr>
         in (case cb_arg of
               Some cb \<Rightarrow>
                 (if event_unread_count u1 event_id \<noteq> 0
                  then (s\<lparr>user_callback_data :=
                            u1\<lparr>event_unread_count := (event_unread_count u1)(event_id := 0)\<rparr>\<rparr>,
                        [callback_call cb data (event_unread_count u1 event_id)])
                  else (s\<lparr>user_callback_data := u1\<rparr>, []))
             | None \<Rightarrow> (s\<lparr>user_callback_data := u1\<rparr>, []))))"

section \<open>Service: the query queue and the query map\<close>

type_synonym int64_t = "64 word"

datatype ZenohQuery = ZenohQuery z_owned_query_t

record rmw_service_data_t = entity_data +
  query_queue :: "ZenohQuery list"
  sequence_to_query_map :: "int64_t \<Rightarrow> ZenohQuery option"

definition query_queue_is_empty :: "rmw_service_data_t \<Rightarrow> bool" where
  "query_queue_is_empty s = (query_queue s = [])"

definition pop_next_query ::
  "rmw_service_data_t \<Rightarrow> ZenohQuery option \<times> rmw_service_data_t" where
  "pop_next_query s =
     (case query_queue s of
        [] \<Rightarrow> (None, s)
      | query # rest \<Rightarrow> (Some query, s\<lparr>query_queue := rest\<rparr>))"

definition add_new_query ::
  "ZenohQuery \<Rightarrow> rmw_service_data_t \<Rightarrow> rmw_service_data_t \<times> effect list" where
  "add_new_query query s =
     (let (u, e) = trigger_user_callback (user_callback_data s);
          s' = s\<lparr>query_queue := query_queue s @ [query], user_callback_data := u\<rparr>
      in (s', e @ notify s'))"

definition add_to_query_map ::
  "int64_t \<Rightarrow> ZenohQuery \<Rightarrow> rmw_service_data_t \<Rightarrow> bool \<times> rmw_service_data_t" where
  "add_to_query_map sequence_number_arg query s =
     (if sequence_to_query_map s sequence_number_arg \<noteq> None then (False, s)
      else (True, s\<lparr>sequence_to_query_map :=
                        (sequence_to_query_map s)(sequence_number_arg \<mapsto> query)\<rparr>))"

definition take_from_query_map ::
  "int64_t \<Rightarrow> rmw_service_data_t \<Rightarrow> ZenohQuery option \<times> rmw_service_data_t" where
  "take_from_query_map sequence_number_arg s =
     (case sequence_to_query_map s sequence_number_arg of
        None \<Rightarrow> (None, s)
      | Some query \<Rightarrow>
          (Some query,
           s\<lparr>sequence_to_query_map := (sequence_to_query_map s)(sequence_number_arg := None)\<rparr>))"

definition set_on_new_request_callback ::
  "ptr option \<Rightarrow> rmw_event_callback_t option \<Rightarrow> rmw_service_data_t
     \<Rightarrow> rmw_service_data_t \<times> effect list" where
  "set_on_new_request_callback data cb_arg s =
     (let (u, e) = set_on_new_callback data cb_arg (user_callback_data s)
      in (s\<lparr>user_callback_data := u\<rparr>, e))"

section \<open>Client: the reply queue, the sequence numbers and the reply handler\<close>

text \<open>
  A reply of the transport, as far as the code looks at it: \<open>z_reply_null()\<close> is the empty
  handle, for which \<open>z_reply_check\<close> is false; a checked reply carries a sample
  (\<open>z_reply_is_ok\<close>) or an error.
\<close>

datatype z_owned_reply_t = z_reply_null | z_reply_sample z_sample_t | z_reply_error nat

fun z_reply_check :: "z_owned_reply_t \<Rightarrow> bool" where
  "z_reply_check z_reply_null = False"
| "z_reply_check _ = True"

fun z_reply_is_ok :: "z_owned_reply_t \<Rightarrow> bool" where
  "z_reply_is_ok (z_reply_sample _) = True"
| "z_reply_is_ok _ = False"

datatype ZenohReply = ZenohReply z_owned_reply_t

fun get_sample :: "ZenohReply \<Rightarrow> z_sample_t option" where
  "get_sample (ZenohReply (z_reply_sample sample)) = Some sample"
| "get_sample _ = None"

record rmw_client_data_t = entity_data +
  reply_queue :: "ZenohReply list"
  sequence_number :: size_t

definition add_new_reply ::
  "ZenohReply \<Rightarrow> rmw_client_data_t \<Rightarrow> rmw_client_data_t \<times> effect list" where
  "add_new_reply reply s =
     (let (u, e) = trigger_user_callback (user_callback_data s);
          s' = s\<lparr>reply_queue := reply_queue s @ [reply], user_callback_data := u\<rparr>
      in (s', e @ notify s'))"

definition reply_queue_is_empty :: "rmw_client_data_t \<Rightarrow> bool" where
  "reply_queue_is_empty s = (reply_queue s = [])"

definition pop_next_reply ::
  "rmw_client_data_t \<Rightarrow> ZenohReply option \<times> rmw_client_data_t" where
  "pop_next_reply s =
     (case reply_queue s of
        [] \<Rightarrow> (None, s)
      | latest_reply # rest \<Rightarrow> (Some latest_reply, s\<lparr>reply_queue := rest\<rparr>))"

definition set_on_new_response_callback ::
  "ptr option \<Rightarrow> rmw_event_callback_t option \<Rightarrow> rmw_client_data_t
     \<Rightarrow> rmw_client_data_t \<times> effect list" where
  "set_on_new_response_callback data cb_arg s =
     (let (u, e) = set_on_new_callback data cb_arg (user_callback_data s)
      in (s\<lparr>user_callback_data := u\<rparr>, e))"

text \<open>\<open>return sequence_number++\<close> on a \<open>size_t\<close>: the old value is returned, the sum wraps.\<close>

definition get_next_sequence_number :: "rmw_client_data_t \<Rightarrow> size_t \<times> rmw_client_data_t" where
  "get_next_sequence_number s = (sequence_number s, s\<lparr>sequence_number := sequence_number s + 1\<rparr>)"

text \<open>
  \<open>client_data_handler(reply, data)\<close>: \<open>data\<close> is the client, or null; the result is the
  reply handle and the client as the handler leaves them.
\<close>

definition client_data_handler ::
  "z_owned_reply_t \<Rightarrow> rmw_client_data_t option
     \<Rightarrow> (z_owned_reply_t \<times> rmw_client_data_t option) \<times> effect list" where
  "client_data_handler reply data =
     (case data of
        None \<Rightarrow>
          ((reply, None), [RCUTILS_LOG_NAMED ERROR ''rmw_zenoh_cpp'' ''Unable to obtain client_data_t ''])
      | Some client_data \<Rightarrow>
          (if \<not> z_reply_check reply then
             ((reply, Some client_data),
              [RCUTILS_LOG_NAMED ERROR ''rmw_zenoh_cpp'' ''z_reply_check returned False''])
           else if \<not> z_reply_is_ok reply then
             ((reply, Some client_data),
              [RCUTILS_LOG_NAMED ERROR ''rmw_zenoh_cpp'' ''z_reply_is_ok returned False''])
           else
             (let (client_data', e) = add_new_reply (ZenohReply reply) client_data
              in ((z_reply_null, Some client_data'), e))))"

section \<open>rmw\_take\_event\<close>

datatype rmw_ret_t =
    RMW_RET_OK
  | RMW_RET_ERROR
  | RMW_RET_INVALID_ARGUMENT
  | RMW_RET_INCORRECT_RMW_IMPLEMENTATION
  | RMW_RET_UNSUPPORTED

text \<open>
  The \<open>data\<close> of an event handle is a \<open>void *\<close> to the publisher or the subscription the
  event was initialised with; the event status written through \<open>event_info\<close> has the two
  counters and the policy kind, which \<open>rmw_take_event\<close> does not touch.
\<close>

datatype event_entity =
    subscription_data rmw_subscription_data_t
  | publisher_data rmw_publisher_data_t

record rmw_event_t =
  implementation_identifier :: string
  data :: "event_entity option"
  event_type :: rmw_event_type_t

record rmw_qos_incompatible_event_status_t =
  total_count :: "32 word"
  total_count_change :: "32 word"
  last_policy_kind :: nat

text \<open>
  The result is the return code, the status behind \<open>event_info\<close>, the flag behind
  \<open>taken\<close>, and the effects. \<open>RMW_CHECK_ARGUMENT_FOR_NULL\<close> sets the error message and
  returns its second argument.
\<close>

definition rmw_take_event ::
  "detail_hpp \<Rightarrow> rmw_event_t option \<Rightarrow> rmw_qos_incompatible_event_status_t option
     \<Rightarrow> bool option
     \<Rightarrow> rmw_ret_t \<times> rmw_qos_incompatible_event_status_t option \<times> bool option \<times> effect list" where
  "rmw_take_event h event_handle event_info taken =
     (case event_handle of
        None \<Rightarrow>
          (RMW_RET_INVALID_ARGUMENT, event_info, taken,
           [RMW_SET_ERROR_MSG ''event_handle argument is null''])
      | Some ev \<Rightarrow>
     (case event_info of
        None \<Rightarrow>
          (RMW_RET_INVALID_ARGUMENT, event_info, taken,
           [RMW_SET_ERROR_MSG ''event_info argument is null''])
      | Some ei \<Rightarrow>
     (case taken of
        None \<Rightarrow>
          (RMW_RET_INVALID_ARGUMENT, event_info, taken,
           [RMW_SET_ERROR_MSG ''taken argument is null''])
      | Some _ \<Rightarrow>
          (if implementation_identifier ev \<noteq> rmw_zenoh_identifier h then
             (RMW_RET_INCORRECT_RMW_IMPLEMENTATION, Some ei, Some False,
              [RMW_SET_ERROR_MSG ''Event implementation identifier not from this implementation''])
           else
             (case event_map h (event_type ev) of
                None \<Rightarrow>
                  (RMW_RET_ERROR, Some ei, Some False,
                   [RMW_SET_ERROR_MSG ''RMW Zenoh does not support event [%d]''])
              | Some zenoh_event \<Rightarrow>
                  (if zenoh_event = ZENOH_EVENT_REQUESTED_QOS_INCOMPATIBLE h then
                     (case data ev of
                        None \<Rightarrow>
                          (RMW_RET_INVALID_ARGUMENT, Some ei, Some False,
                           [RMW_SET_ERROR_MSG ''sub_data argument is null''])
                      | Some _ \<Rightarrow>
                          (RMW_RET_OK, Some (ei\<lparr>total_count := 0, total_count_change := 0\<rparr>),
                           Some True, []))
                   else if zenoh_event = ZENOH_EVENT_OFFERED_QOS_INCOMPATIBLE h then
                     (RMW_RET_OK, Some (ei\<lparr>total_count := 0, total_count_change := 0\<rparr>),
                      Some True, [])
                   else (RMW_RET_INVALID_ARGUMENT, Some ei, Some False, [])))))))"

section \<open>Runs of operations\<close>

text \<open>
  \<open>invocations\<close> reads the callback calls off a list of effects, \<open>diagnostics\<close> the log
  records and error messages.
\<close>

fun invocations :: "effect list \<Rightarrow> (rmw_event_callback_t \<times> ptr option \<times> nat) list" where
  "invocations [] = []"
| "invocations (callback_call cb d n # es) = (cb, d, n) # invocations es"
| "invocations (_ # es) = invocations es"

fun is_diagnostic :: "effect \<Rightarrow> bool" where
  "is_diagnostic (RCUTILS_LOG_NAMED _ _ _) = True"
| "is_diagnostic (RMW_SET_ERROR_MSG _) = True"
| "is_diagnostic _ = False"

definition diagnostics :: "effect list \<Rightarrow> effect list" where
  "diagnostics es = filter is_diagnostic es"

text \<open>
  Runs of arrivals on a service and on a client, and a run of \<open>n\<close> calls of
  \<open>get_next_sequence_number\<close>, which returns the numbers in the order of the calls.
\<close>

fun add_new_queries ::
  "ZenohQuery list \<Rightarrow> rmw_service_data_t \<Rightarrow> rmw_service_data_t \<times> effect list" where
  "add_new_queries [] s = (s, [])"
| "add_new_queries (query # queries) s =
     (let (s1, e1) = add_new_query query s;
          (s2, e2) = add_new_queries queries s1
      in (s2, e1 @ e2))"

fun add_new_replies ::
  "ZenohReply list \<Rightarrow> rmw_client_data_t \<Rightarrow> rmw_client_data_t \<times> effect list" where
  "add_new_replies [] s = (s, [])"
| "add_new_replies (reply # replies) s =
     (let (s1, e1) = add_new_reply reply s;
          (s2, e2) = add_new_replies replies s1
      in (s2, e1 @ e2))"

fun get_next_sequence_numbers ::
  "nat \<Rightarrow> rmw_client_data_t \<Rightarrow> size_t list \<times> rmw_client_data_t" where
  "get_next_sequence_numbers 0 s = ([], s)"
| "get_next_sequence_numbers (Suc n) s =
     (let (x, s1) = get_next_sequence_number s;
          (xs, s2) = get_next_sequence_numbers n s1
      in (x # xs, s2))"

text \<open>
  An effect that reports a failure: the rmw error message, or a log record of severity
  \<open>ERROR\<close> or \<open>FATAL\<close>.
\<close>

fun is_error :: "effect \<Rightarrow> bool" where
  "is_error (RMW_SET_ERROR_MSG _) = True"
| "is_error (RCUTILS_LOG_NAMED ERROR _ _) = True"
| "is_error (RCUTILS_LOG_NAMED FATAL _ _) = True"
| "is_error _ = False"

section \<open>Entities as created\<close>

text \<open>
  Modelled from the spec: the member initialisers of the entity structs are in
  rmw\_data\_types.hpp, which is not among the sources. A new entity has empty queues and an
  empty query map, no callback, unread counts of zero and no condition attached; the depth
  of a subscription and the first sequence number of a client are arguments.
\<close>

definition new_callback_data :: user_callback_data_t where
  "new_callback_data =
     \<lparr>callback = None, user_data = None, unread_count = 0,
      event_callback = (\<lambda>_. None), event_data = (\<lambda>_. None), event_unread_count = (\<lambda>_. 0)\<rparr>"

definition new_subscription :: "nat \<Rightarrow> rmw_subscription_data_t" where
  "new_subscription D =
     \<lparr>user_callback_data = new_callback_data, condition = None,
      adapted_qos_profile = \<lparr>depth = D\<rparr>, message_queue = []\<rparr>"

definition new_service :: rmw_service_data_t where
  "new_service =
     \<lparr>user_callback_data = new_callback_data, condition = None,
      query_queue = [], sequence_to_query_map = (\<lambda>_. None)\<rparr>"

definition new_client :: "size_t \<Rightarrow> rmw_client_data_t" where
  "new_client first_sequence_number =
     \<lparr>user_callback_data = new_callback_data, condition = None,
      reply_queue = [], sequence_number = first_sequence_number\<rparr>"

text \<open>
  Modelled from the spec: the member initialiser of \<open>sequence_number\<close> is in
  rmw\_data\_types.hpp, which is not among the sources. In the spec the counter of a client
  starts at 0: the first request of a client gets sequence number 0, the second gets 1.
\<close>

definition client_as_created :: rmw_client_data_t where
  "client_as_created = new_client 0"

definition msg_of :: "nat \<Rightarrow> saved_msg_data" where
  "msg_of n = \<lparr>payload = n, recv_timestamp = of_nat n, publisher_gid = replicate 16 0\<rparr>"

text \<open>
  An instance of the parameters taken from the headers, for evaluating the functions: three
  zenoh event ids 0 (invalid), 1 (requested QoS incompatible) and 2 (offered QoS
  incompatible), and a table that sends the rmw event types 2 and 7 to the last two.
\<close>

definition detail_hpp_example :: detail_hpp where
  "detail_hpp_example =
     \<lparr>ZENOH_EVENT_REQUESTED_QOS_INCOMPATIBLE = 1, ZENOH_EVENT_OFFERED_QOS_INCOMPATIBLE = 2,
      ZENOH_EVENT_ID_MAX = 2,
      event_map = (\<lambda>t. if t = 2 then Some 1 else if t = 7 then Some 2 else None),
      rmw_zenoh_identifier = ''rmw_zenoh_cpp''\<rparr>"

definition new_publisher :: rmw_publisher_data_t where
  "new_publisher = \<lparr>user_callback_data = new_callback_data\<rparr>"

section \<open>Properties of the message queue\<close>

lemma add_new_message_queue:
  "message_queue (fst (add_new_message msg t s)) =
     (if length (message_queue s) \<ge> depth (adapted_qos_profile s)
      then tl (message_queue s) else message_queue s) @ [msg]"
  by (simp add: add_new_message_def Let_def split: prod.splits list.splits)

lemma add_new_message_depth:
  "adapted_qos_profile (fst (add_new_message msg t s)) = adapted_qos_profile s"
  by (simp add: add_new_message_def Let_def split: prod.splits list.splits)

lemma add_new_message_errors: "filter is_error (snd (add_new_message msg t s)) = []"
  by (simp add: add_new_message_def trigger_user_callback_def notify_def Let_def
      split: prod.splits list.splits option.splits)

lemma add_new_messages_queue:
  "length (message_queue s) \<le> depth (adapted_qos_profile s) \<Longrightarrow>
   1 \<le> depth (adapted_qos_profile s) \<Longrightarrow>
   message_queue (fst (add_new_messages msgs t s)) =
     drop (length (message_queue s @ msgs) - depth (adapted_qos_profile s))
       (message_queue s @ msgs)"
proof (induction msgs arbitrary: s)
  case Nil
  then show ?case by simp
next
  case (Cons m msgs)
  let ?s1 = "fst (add_new_message m t s)"
  let ?D = "depth (adapted_qos_profile s)"
  have d1: "depth (adapted_qos_profile ?s1) = ?D"
    by (simp add: add_new_message_depth)
  have q1: "message_queue ?s1 =
      (if length (message_queue s) \<ge> ?D then tl (message_queue s) else message_queue s) @ [m]"
    by (rule add_new_message_queue)
  have len1: "length (message_queue ?s1) \<le> ?D"
    using Cons.prems by (auto simp add: q1)
  have step: "message_queue (fst (add_new_messages (m # msgs) t s)) =
      message_queue (fst (add_new_messages msgs t ?s1))"
    by (simp add: split_def Let_def)
  have ih: "message_queue (fst (add_new_messages msgs t ?s1)) =
      drop (length (message_queue ?s1 @ msgs) - ?D) (message_queue ?s1 @ msgs)"
    using Cons.IH [of ?s1] len1 Cons.prems(2) d1 by simp
  show ?case
  proof (cases "length (message_queue s) \<ge> ?D")
    case False
    then show ?thesis using step ih q1 by simp
  next
    case True
    with Cons.prems have eq: "length (message_queue s) = ?D" by simp
    with Cons.prems(2) obtain x xs where q: "message_queue s = x # xs"
      by (cases "message_queue s") auto
    from eq q have lx: "length xs = ?D - 1" by simp
    show ?thesis using step ih q1 True q lx Cons.prems(2) eq
      by (simp add: Suc_diff_le)
  qed
qed

lemma add_new_message_evicts:
  assumes "length (message_queue s) \<ge> depth (adapted_qos_profile s)"
    and "message_queue s = old # rest"
  shows "message_queue (fst (add_new_message msg t s)) = rest @ [msg]"
    and "z_drop (payload old) \<in> set (snd (add_new_message msg t s))"
  using assms
  by (simp_all add: add_new_message_def Let_def split: prod.splits)

text \<open>
  C1. On a subscription with depth \<open>D \<ge> 1\<close> whose queue is empty, after the pushes of
  \<open>msgs\<close> (\<open>N\<close> of them) by \<open>add_new_message\<close> the queue holds exactly \<open>min N D\<close>
  messages, the most recently pushed ones in the order they were pushed. A push that finds
  the queue at length \<open>\<ge> D\<close> drops the head (and its payload) and then appends the new
  message at the tail. No push fails: each leaves its message at the tail of the queue and
  reports no error.
\<close>

theorem add_new_message_keeps_newest:
  assumes "depth (adapted_qos_profile s) = D" and "1 \<le> D" and "message_queue s = []"
  shows "message_queue (fst (add_new_messages msgs t s)) = drop (length msgs - D) msgs
    \<and> length (message_queue (fst (add_new_messages msgs t s))) = min (length msgs) D
    \<and> (\<forall>s' msg. depth (adapted_qos_profile s') = D \<and> length (message_queue s') \<ge> D \<longrightarrow>
          (\<exists>old rest. message_queue s' = old # rest
             \<and> message_queue (fst (add_new_message msg t s')) = rest @ [msg]
             \<and> z_drop (payload old) \<in> set (snd (add_new_message msg t s'))))
    \<and> (\<forall>s' msg. last (message_queue (fst (add_new_message msg t s'))) = msg
          \<and> filter is_error (snd (add_new_message msg t s')) = [])"
proof -
  have q: "message_queue (fst (add_new_messages msgs t s)) = drop (length msgs - D) msgs"
    using add_new_messages_queue [of s msgs t] assms by simp
  have len: "length (message_queue (fst (add_new_messages msgs t s))) = min (length msgs) D"
    unfolding q by auto
  have ev: "\<exists>old rest. message_queue s' = old # rest
             \<and> message_queue (fst (add_new_message msg t s')) = rest @ [msg]
             \<and> z_drop (payload old) \<in> set (snd (add_new_message msg t s'))"
    if "depth (adapted_qos_profile s') = D \<and> length (message_queue s') \<ge> D" for s' msg
  proof -
    from that assms(2) obtain old rest where c: "message_queue s' = old # rest"
      by (cases "message_queue s'") auto
    from that have "length (message_queue s') \<ge> depth (adapted_qos_profile s')" by simp
    from add_new_message_evicts [OF this c] c show ?thesis by blast
  qed
  have ok: "last (message_queue (fst (add_new_message msg t s'))) = msg
          \<and> filter is_error (snd (add_new_message msg t s')) = []" for s' msg
    by (simp add: add_new_message_queue add_new_message_errors)
  from q len ev ok show ?thesis by blast
qed

theorem add_new_message_keeps_newest_witness:
  "depth (adapted_qos_profile (new_subscription 2)) = 2 \<and> (1::nat) \<le> 2
   \<and> message_queue (new_subscription 2) = []
   \<and> message_queue (fst (add_new_messages [msg_of 1, msg_of 2, msg_of 3] ''chatter''
        (new_subscription 2))) = [msg_of 2, msg_of 3]
   \<and> length (message_queue (fst (add_new_messages [msg_of 1, msg_of 2, msg_of 3] ''chatter''
        (new_subscription 2)))) = 2
   \<and> depth (adapted_qos_profile ((new_subscription 2)\<lparr>message_queue := [msg_of 1, msg_of 2]\<rparr>))
        = 2
   \<and> length (message_queue ((new_subscription 2)\<lparr>message_queue := [msg_of 1, msg_of 2]\<rparr>))
        \<ge> 2
   \<and> message_queue (fst (add_new_message (msg_of 3) ''chatter''
        ((new_subscription 2)\<lparr>message_queue := [msg_of 1, msg_of 2]\<rparr>))) = [msg_of 2, msg_of 3]"
proof -
  have h: "depth (adapted_qos_profile (new_subscription 2)) = 2" "(1::nat) \<le> 2"
    "message_queue (new_subscription 2) = []"
    by (simp_all add: new_subscription_def)
  note t = add_new_message_keeps_newest
    [OF h, of "[msg_of 1, msg_of 2, msg_of 3]" "''chatter''"]
  from t have ev: "depth (adapted_qos_profile
        ((new_subscription 2)\<lparr>message_queue := [msg_of 1, msg_of 2]\<rparr>)) = 2
      \<and> length (message_queue ((new_subscription 2)\<lparr>message_queue := [msg_of 1, msg_of 2]\<rparr>))
        \<ge> 2 \<longrightarrow>
      (\<exists>old rest. message_queue ((new_subscription 2)\<lparr>message_queue := [msg_of 1, msg_of 2]\<rparr>)
          = old # rest
        \<and> message_queue (fst (add_new_message (msg_of 3) ''chatter''
            ((new_subscription 2)\<lparr>message_queue := [msg_of 1, msg_of 2]\<rparr>))) = rest @ [msg_of 3])"
    by blast
  from t ev h show ?thesis by (simp add: new_subscription_def)
qed

section \<open>Properties of the query map\<close>

text \<open>
  C2. For a service whose query map has no entry for \<open>seq\<close>: \<open>add_to_query_map seq q\<close> returns
  true and stores \<open>q\<close> under \<open>seq\<close>; a second \<open>add_to_query_map seq q2\<close> before any take
  returns false and changes nothing; \<open>take_from_query_map seq\<close> then returns \<open>q\<close> and removes
  the entry, so that a further take returns null; and a take for a key that was never stored
  returns null and changes nothing.
\<close>

theorem query_map_add_take:
  assumes "sequence_to_query_map s seq = None"
  shows "fst (add_to_query_map seq q s) = True
    \<and> sequence_to_query_map (snd (add_to_query_map seq q s)) seq = Some q
    \<and> add_to_query_map seq q2 (snd (add_to_query_map seq q s)) =
        (False, snd (add_to_query_map seq q s))
    \<and> fst (take_from_query_map seq (snd (add_to_query_map seq q s))) = Some q
    \<and> sequence_to_query_map
        (snd (take_from_query_map seq (snd (add_to_query_map seq q s)))) seq = None
    \<and> fst (take_from_query_map seq
        (snd (take_from_query_map seq (snd (add_to_query_map seq q s))))) = None
    \<and> take_from_query_map seq s = (None, s)"
  using assms by (simp add: add_to_query_map_def take_from_query_map_def)

theorem query_map_add_take_witness:
  "sequence_to_query_map new_service 42 = None
   \<and> fst (add_to_query_map 42 (ZenohQuery 7) new_service) = True
   \<and> add_to_query_map 42 (ZenohQuery 8) (snd (add_to_query_map 42 (ZenohQuery 7) new_service)) =
        (False, snd (add_to_query_map 42 (ZenohQuery 7) new_service))
   \<and> fst (take_from_query_map 42 (snd (add_to_query_map 42 (ZenohQuery 7) new_service))) =
        Some (ZenohQuery 7)
   \<and> fst (take_from_query_map 42 (snd (take_from_query_map 42
        (snd (add_to_query_map 42 (ZenohQuery 7) new_service))))) = None"
  using query_map_add_take [of new_service 42 "ZenohQuery 7" "ZenohQuery 8"]
  by (simp add: new_service_def)

section \<open>Properties of the sequence numbers\<close>

lemma get_next_sequence_numbers_eq:
  "fst (get_next_sequence_numbers n s) = map (\<lambda>i. sequence_number s + of_nat i) [0..<n]"
proof (induction n arbitrary: s)
  case 0
  then show ?case by simp
next
  case (Suc n)
  have "fst (get_next_sequence_numbers (Suc n) s) =
      sequence_number s #
      fst (get_next_sequence_numbers n (s\<lparr>sequence_number := sequence_number s + 1\<rparr>))"
    by (simp add: get_next_sequence_number_def split_def Let_def)
  also have "\<dots> = sequence_number s # map (\<lambda>i. sequence_number s + 1 + of_nat i) [0..<n]"
    by (simp add: Suc.IH)
  also have "\<dots> = map (\<lambda>i. sequence_number s + of_nat i) (0 # map Suc [0..<n])"
    by (simp add: add.assoc)
  also have "0 # map Suc [0..<n] = [0..<Suc n]"
    by (simp add: upt_conv_Cons map_Suc_upt del: upt_Suc)
  finally show ?case .
qed

lemma of_nat_64_inj:
  "i < 2 ^ 64 \<Longrightarrow> j < 2 ^ 64 \<Longrightarrow> (of_nat i :: 64 word) = of_nat j \<Longrightarrow> i = j"
  by (simp add: word_of_nat_eq_iff take_bit_nat_eq_self)

lemma inj_on_add_of_nat: "n \<le> 2 ^ 64 \<Longrightarrow> inj_on (\<lambda>i. (x :: 64 word) + of_nat i) {0..<n}"
  by (auto simp add: inj_on_def intro: of_nat_64_inj)

text \<open>
  The counter is a \<open>size_t\<close>: of \<open>2 ^ 64 + 1\<close> successive calls on a client as created,
  the last returns 0 again, the number the first call returned.
\<close>

theorem sequence_numbers_wrap:
  "fst (get_next_sequence_numbers (2 ^ 64 + 1) client_as_created) ! (2 ^ 64)
     = fst (get_next_sequence_numbers (2 ^ 64 + 1) client_as_created) ! 0
   \<and> unat (fst (get_next_sequence_numbers (2 ^ 64 + 1) client_as_created) ! (2 ^ 64)) = 0"
  by (simp add: get_next_sequence_numbers_eq client_as_created_def new_client_def del: upt_Suc)

text \<open>
  C6 (amended). The sequence numbers returned by the first \<open>n \<le> 2 ^ 64\<close> successive calls
  of \<open>get_next_sequence_number\<close> on a client are strictly increasing and never repeat,
  starting at 0: the first call returns 0, the second returns 1, and the \<open>k\<close>-th call
  returns \<open>k - 1\<close>. On a client in any state, each of at most \<open>2 ^ 64\<close> successive calls
  returns one more than the call before it, and no two of them return the same number.
\<close>

theorem sequence_numbers_first_calls:
  assumes "n \<le> 2 ^ 64"
  shows "map unat (fst (get_next_sequence_numbers n client_as_created)) = [0..<n]
    \<and> sorted_wrt (<) (map unat (fst (get_next_sequence_numbers n client_as_created)))
    \<and> distinct (fst (get_next_sequence_numbers n client_as_created))
    \<and> fst (get_next_sequence_number client_as_created) = 0
    \<and> fst (get_next_sequence_number (snd (get_next_sequence_number client_as_created))) = 1
    \<and> fst (get_next_sequence_numbers n s) = map (\<lambda>i. sequence_number s + of_nat i) [0..<n]
    \<and> distinct (fst (get_next_sequence_numbers n s))"
proof -
  have d: "distinct (fst (get_next_sequence_numbers n c))" for c
    using assms by (simp add: get_next_sequence_numbers_eq distinct_map inj_on_add_of_nat)
  have u: "map unat (fst (get_next_sequence_numbers n client_as_created)) = [0..<n]"
    using assms
    by (auto simp add: get_next_sequence_numbers_eq client_as_created_def new_client_def
        unat_of_nat intro!: map_idI)
  have f: "fst (get_next_sequence_number client_as_created) = 0
    \<and> fst (get_next_sequence_number (snd (get_next_sequence_number client_as_created))) = 1"
    by (simp add: get_next_sequence_number_def client_as_created_def new_client_def)
  from d [of client_as_created] d [of s] u f show ?thesis
    by (simp add: get_next_sequence_numbers_eq)
qed

theorem sequence_numbers_first_calls_witness:
  "(3::nat) \<le> 2 ^ 64
   \<and> map unat (fst (get_next_sequence_numbers 3 client_as_created)) = [0, 1, 2]
   \<and> distinct (fst (get_next_sequence_numbers 3 client_as_created))
   \<and> fst (get_next_sequence_number client_as_created) = 0"
  using sequence_numbers_first_calls [where n = 3 and s = "new_client 5"]
  by (simp add: upt_rec)

section \<open>Properties of the new-data callback\<close>

lemma invocations_append: "invocations (xs @ ys) = invocations xs @ invocations ys"
  by (induction xs rule: invocations.induct) simp_all

lemma invocations_notify: "invocations (notify s) = []"
  by (simp add: notify_def split: option.splits)

lemma add_new_message_registry:
  "user_callback_data (fst (add_new_message msg t s)) =
     fst (trigger_user_callback (user_callback_data s))"
  "invocations (snd (add_new_message msg t s)) =
     invocations (snd (trigger_user_callback (user_callback_data s)))"
  by (simp_all add: add_new_message_def Let_def invocations_append invocations_notify
      split: prod.splits list.splits)

lemma add_new_query_registry:
  "user_callback_data (fst (add_new_query q s)) =
     fst (trigger_user_callback (user_callback_data s))"
  "invocations (snd (add_new_query q s)) =
     invocations (snd (trigger_user_callback (user_callback_data s)))"
  by (simp_all add: add_new_query_def Let_def invocations_append invocations_notify
      split: prod.splits)

lemma add_new_reply_registry:
  "user_callback_data (fst (add_new_reply r s)) =
     fst (trigger_user_callback (user_callback_data s))"
  "invocations (snd (add_new_reply r s)) =
     invocations (snd (trigger_user_callback (user_callback_data s)))"
  by (simp_all add: add_new_reply_def Let_def invocations_append invocations_notify
      split: prod.splits)

lemma trigger_unset:
  "callback u = None \<Longrightarrow>
     fst (trigger_user_callback u) = u\<lparr>unread_count := unread_count u + 1\<rparr>"
  "callback u = None \<Longrightarrow> invocations (snd (trigger_user_callback u)) = []"
  by (simp_all add: trigger_user_callback_def)

lemma trigger_set:
  "callback u = Some cb \<Longrightarrow> fst (trigger_user_callback u) = u"
  "callback u = Some cb \<Longrightarrow>
     invocations (snd (trigger_user_callback u)) = [(cb, user_data u, 1)]"
  by (simp_all add: trigger_user_callback_def)

lemma add_new_messages_unset:
  "callback (user_callback_data s) = None \<Longrightarrow>
   user_callback_data (fst (add_new_messages msgs t s)) =
     (user_callback_data s)\<lparr>unread_count := unread_count (user_callback_data s) + length msgs\<rparr>
   \<and> invocations (snd (add_new_messages msgs t s)) = []"
proof (induction msgs arbitrary: s)
  case Nil
  then show ?case by simp
next
  case (Cons m msgs)
  let ?s1 = "fst (add_new_message m t s)"
  have u1: "user_callback_data ?s1 =
      (user_callback_data s)\<lparr>unread_count := unread_count (user_callback_data s) + 1\<rparr>"
    using Cons.prems by (simp add: add_new_message_registry trigger_unset)
  have i1: "invocations (snd (add_new_message m t s)) = []"
    using Cons.prems by (simp add: add_new_message_registry trigger_unset)
  have c1: "callback (user_callback_data ?s1) = None"
    using Cons.prems by (simp add: u1)
  from Cons.IH [OF c1] u1 i1 show ?case
    by (simp add: split_def Let_def invocations_append)
qed

lemma add_new_queries_unset:
  "callback (user_callback_data s) = None \<Longrightarrow>
   user_callback_data (fst (add_new_queries qs s)) =
     (user_callback_data s)\<lparr>unread_count := unread_count (user_callback_data s) + length qs\<rparr>
   \<and> invocations (snd (add_new_queries qs s)) = []"
proof (induction qs arbitrary: s)
  case Nil
  then show ?case by simp
next
  case (Cons m qs)
  let ?s1 = "fst (add_new_query m s)"
  have u1: "user_callback_data ?s1 =
      (user_callback_data s)\<lparr>unread_count := unread_count (user_callback_data s) + 1\<rparr>"
    using Cons.prems by (simp add: add_new_query_registry trigger_unset)
  have i1: "invocations (snd (add_new_query m s)) = []"
    using Cons.prems by (simp add: add_new_query_registry trigger_unset)
  have c1: "callback (user_callback_data ?s1) = None"
    using Cons.prems by (simp add: u1)
  from Cons.IH [OF c1] u1 i1 show ?case
    by (simp add: split_def Let_def invocations_append)
qed

lemma add_new_replies_unset:
  "callback (user_callback_data s) = None \<Longrightarrow>
   user_callback_data (fst (add_new_replies rs s)) =
     (user_callback_data s)\<lparr>unread_count := unread_count (user_callback_data s) + length rs\<rparr>
   \<and> invocations (snd (add_new_replies rs s)) = []"
proof (induction rs arbitrary: s)
  case Nil
  then show ?case by simp
next
  case (Cons m rs)
  let ?s1 = "fst (add_new_reply m s)"
  have u1: "user_callback_data ?s1 =
      (user_callback_data s)\<lparr>unread_count := unread_count (user_callback_data s) + 1\<rparr>"
    using Cons.prems by (simp add: add_new_reply_registry trigger_unset)
  have i1: "invocations (snd (add_new_reply m s)) = []"
    using Cons.prems by (simp add: add_new_reply_registry trigger_unset)
  have c1: "callback (user_callback_data ?s1) = None"
    using Cons.prems by (simp add: u1)
  from Cons.IH [OF c1] u1 i1 show ?case
    by (simp add: split_def Let_def invocations_append)
qed

text \<open>
  The whole scenario on the callback data alone: \<open>n > 0\<close> unread events, then a callback is
  set, then one more event arrives.
\<close>

lemma backlog_then_one:
  assumes "unread_count u = n" and "0 < n"
  shows "invocations (snd (set_on_new_callback d (Some cb) u)) = [(cb, d, n)]"
    and "unread_count (fst (set_on_new_callback d (Some cb) u)) = 0"
    and "invocations (snd (trigger_user_callback (fst (set_on_new_callback d (Some cb) u)))) =
           [(cb, d, 1)]"
    and "unread_count (fst (trigger_user_callback (fst (set_on_new_callback d (Some cb) u)))) = 0"
  using assms by (simp_all add: set_on_new_callback_def trigger_user_callback_def)

lemma set_on_new_callback_registry:
  "user_callback_data (fst (set_on_new_message_callback d c s1)) =
     fst (set_on_new_callback d c (user_callback_data s1))"
  "snd (set_on_new_message_callback d c s1) = snd (set_on_new_callback d c (user_callback_data s1))"
  "user_callback_data (fst (set_on_new_request_callback d c s2)) =
     fst (set_on_new_callback d c (user_callback_data s2))"
  "snd (set_on_new_request_callback d c s2) = snd (set_on_new_callback d c (user_callback_data s2))"
  "user_callback_data (fst (set_on_new_response_callback d c s3)) =
     fst (set_on_new_callback d c (user_callback_data s3))"
  "snd (set_on_new_response_callback d c s3) = snd (set_on_new_callback d c (user_callback_data s3))"
  by (simp_all add: set_on_new_message_callback_def set_on_new_request_callback_def
      set_on_new_response_callback_def split_def Let_def)

lemma subscription_backlog:
  assumes "callback (user_callback_data s) = None"
    and "unread_count (user_callback_data s) = 0" and "msgs \<noteq> []"
  shows "unread_count (user_callback_data (fst (add_new_messages msgs t s))) = length msgs
    \<and> invocations (snd (add_new_messages msgs t s)) = []
    \<and> invocations (snd (set_on_new_message_callback d (Some cb)
          (fst (add_new_messages msgs t s)))) = [(cb, d, length msgs)]
    \<and> unread_count (user_callback_data (fst (set_on_new_message_callback d (Some cb)
          (fst (add_new_messages msgs t s))))) = 0
    \<and> invocations (snd (add_new_message msg t (fst (set_on_new_message_callback d (Some cb)
          (fst (add_new_messages msgs t s)))))) = [(cb, d, 1)]
    \<and> unread_count (user_callback_data (fst (add_new_message msg t
          (fst (set_on_new_message_callback d (Some cb)
            (fst (add_new_messages msgs t s))))))) = 0"
proof -
  let ?u = "user_callback_data (fst (add_new_messages msgs t s))"
  from add_new_messages_unset [OF assms(1), of msgs t] assms(2)
  have n: "unread_count ?u = length msgs" and i: "invocations (snd (add_new_messages msgs t s)) = []"
    by simp_all
  from assms(3) have pos: "0 < length msgs" by simp
  from backlog_then_one [OF n pos, of d cb] n i show ?thesis
    by (simp add: set_on_new_callback_registry add_new_message_registry)
qed

lemma service_backlog:
  assumes "callback (user_callback_data s) = None"
    and "unread_count (user_callback_data s) = 0" and "qs \<noteq> []"
  shows "unread_count (user_callback_data (fst (add_new_queries qs s))) = length qs
    \<and> invocations (snd (add_new_queries qs s)) = []
    \<and> invocations (snd (set_on_new_request_callback d (Some cb)
          (fst (add_new_queries qs s)))) = [(cb, d, length qs)]
    \<and> unread_count (user_callback_data (fst (set_on_new_request_callback d (Some cb)
          (fst (add_new_queries qs s))))) = 0
    \<and> invocations (snd (add_new_query q (fst (set_on_new_request_callback d (Some cb)
          (fst (add_new_queries qs s)))))) = [(cb, d, 1)]
    \<and> unread_count (user_callback_data (fst (add_new_query q
          (fst (set_on_new_request_callback d (Some cb)
            (fst (add_new_queries qs s))))))) = 0"
proof -
  let ?u = "user_callback_data (fst (add_new_queries qs s))"
  from add_new_queries_unset [OF assms(1), of qs] assms(2)
  have n: "unread_count ?u = length qs" and i: "invocations (snd (add_new_queries qs s)) = []"
    by simp_all
  from assms(3) have pos: "0 < length qs" by simp
  from backlog_then_one [OF n pos, of d cb] n i show ?thesis
    by (simp add: set_on_new_callback_registry add_new_query_registry)
qed

lemma client_backlog:
  assumes "callback (user_callback_data s) = None"
    and "unread_count (user_callback_data s) = 0" and "rs \<noteq> []"
  shows "unread_count (user_callback_data (fst (add_new_replies rs s))) = length rs
    \<and> invocations (snd (add_new_replies rs s)) = []
    \<and> invocations (snd (set_on_new_response_callback d (Some cb)
          (fst (add_new_replies rs s)))) = [(cb, d, length rs)]
    \<and> unread_count (user_callback_data (fst (set_on_new_response_callback d (Some cb)
          (fst (add_new_replies rs s))))) = 0
    \<and> invocations (snd (add_new_reply r (fst (set_on_new_response_callback d (Some cb)
          (fst (add_new_replies rs s)))))) = [(cb, d, 1)]
    \<and> unread_count (user_callback_data (fst (add_new_reply r
          (fst (set_on_new_response_callback d (Some cb)
            (fst (add_new_replies rs s))))))) = 0"
proof -
  let ?u = "user_callback_data (fst (add_new_replies rs s))"
  from add_new_replies_unset [OF assms(1), of rs] assms(2)
  have n: "unread_count ?u = length rs" and i: "invocations (snd (add_new_replies rs s)) = []"
    by simp_all
  from assms(3) have pos: "0 < length rs" by simp
  from backlog_then_one [OF n pos, of d cb] n i show ?thesis
    by (simp add: set_on_new_callback_registry add_new_reply_registry)
qed

text \<open>
  C3. On a subscription, a service and a client alike: when \<open>N > 0\<close> events arrive while no
  callback is set (and none was unread before), no callback is called and the unread count
  is \<open>N\<close>; setting a non-null callback then calls it exactly once, with the \<open>user_data\<close>
  given and the count \<open>N\<close>, and resets the unread count to 0; one more arrival calls the
  callback exactly once with count 1 and leaves the unread count at 0.
\<close>

theorem unread_events_flushed_once:
  assumes "callback (user_callback_data sub) = None"
    and "unread_count (user_callback_data sub) = 0" and "msgs \<noteq> []"
    and "callback (user_callback_data svc) = None"
    and "unread_count (user_callback_data svc) = 0" and "qs \<noteq> []"
    and "callback (user_callback_data cli) = None"
    and "unread_count (user_callback_data cli) = 0" and "rs \<noteq> []"
  shows "(unread_count (user_callback_data (fst (add_new_messages msgs t sub))) = length msgs
    \<and> invocations (snd (add_new_messages msgs t sub)) = []
    \<and> invocations (snd (set_on_new_message_callback d (Some cb)
          (fst (add_new_messages msgs t sub)))) = [(cb, d, length msgs)]
    \<and> unread_count (user_callback_data (fst (set_on_new_message_callback d (Some cb)
          (fst (add_new_messages msgs t sub))))) = 0
    \<and> invocations (snd (add_new_message msg t (fst (set_on_new_message_callback d (Some cb)
          (fst (add_new_messages msgs t sub)))))) = [(cb, d, 1)]
    \<and> unread_count (user_callback_data (fst (add_new_message msg t
          (fst (set_on_new_message_callback d (Some cb)
            (fst (add_new_messages msgs t sub))))))) = 0)
   \<and> (unread_count (user_callback_data (fst (add_new_queries qs svc))) = length qs
    \<and> invocations (snd (add_new_queries qs svc)) = []
    \<and> invocations (snd (set_on_new_request_callback d (Some cb)
          (fst (add_new_queries qs svc)))) = [(cb, d, length qs)]
    \<and> unread_count (user_callback_data (fst (set_on_new_request_callback d (Some cb)
          (fst (add_new_queries qs svc))))) = 0
    \<and> invocations (snd (add_new_query q (fst (set_on_new_request_callback d (Some cb)
          (fst (add_new_queries qs svc)))))) = [(cb, d, 1)]
    \<and> unread_count (user_callback_data (fst (add_new_query q
          (fst (set_on_new_request_callback d (Some cb)
            (fst (add_new_queries qs svc))))))) = 0)
   \<and> (unread_count (user_callback_data (fst (add_new_replies rs cli))) = length rs
    \<and> invocations (snd (add_new_replies rs cli)) = []
    \<and> invocations (snd (set_on_new_response_callback d (Some cb)
          (fst (add_new_replies rs cli)))) = [(cb, d, length rs)]
    \<and> unread_count (user_callback_data (fst (set_on_new_response_callback d (Some cb)
          (fst (add_new_replies rs cli))))) = 0
    \<and> invocations (snd (add_new_reply r (fst (set_on_new_response_callback d (Some cb)
          (fst (add_new_replies rs cli)))))) = [(cb, d, 1)]
    \<and> unread_count (user_callback_data (fst (add_new_reply r
          (fst (set_on_new_response_callback d (Some cb)
            (fst (add_new_replies rs cli))))))) = 0)"
  using subscription_backlog [OF assms(1-3), of t d cb msg]
    service_backlog [OF assms(4-6), of d cb q]
    client_backlog [OF assms(7-9), of d cb r]
  by (rule conjI [OF _ conjI])

theorem unread_events_flushed_once_witness:
  "callback (user_callback_data (new_subscription 1)) = None
   \<and> unread_count (user_callback_data (new_subscription 1)) = 0
   \<and> [msg_of 1, msg_of 2, msg_of 3] \<noteq> []
   \<and> callback (user_callback_data new_service) = None
   \<and> unread_count (user_callback_data new_service) = 0
   \<and> [ZenohQuery 1, ZenohQuery 2] \<noteq> []
   \<and> callback (user_callback_data (new_client 0)) = None
   \<and> unread_count (user_callback_data (new_client 0)) = 0
   \<and> [ZenohReply (z_reply_sample 1)] \<noteq> []
   \<and> unread_count (user_callback_data
        (fst (add_new_messages [msg_of 1, msg_of 2, msg_of 3] ''chatter'' (new_subscription 1)))) = 3
   \<and> invocations (snd (set_on_new_message_callback (Some 100) (Some 9)
        (fst (add_new_messages [msg_of 1, msg_of 2, msg_of 3] ''chatter'' (new_subscription 1)))))
        = [(9, Some 100, 3)]
   \<and> invocations (snd (add_new_message (msg_of 4) ''chatter''
        (fst (set_on_new_message_callback (Some 100) (Some 9)
          (fst (add_new_messages [msg_of 1, msg_of 2, msg_of 3] ''chatter''
            (new_subscription 1))))))) = [(9, Some 100, 1)]
   \<and> invocations (snd (set_on_new_request_callback (Some 100) (Some 9)
        (fst (add_new_queries [ZenohQuery 1, ZenohQuery 2] new_service)))) = [(9, Some 100, 2)]
   \<and> invocations (snd (set_on_new_response_callback (Some 100) (Some 9)
        (fst (add_new_replies [ZenohReply (z_reply_sample 1)] (new_client 0)))))
        = [(9, Some 100, 1)]"
  using unread_events_flushed_once [of "new_subscription 1" "[msg_of 1, msg_of 2, msg_of 3]"
      new_service "[ZenohQuery 1, ZenohQuery 2]" "new_client 0" "[ZenohReply (z_reply_sample 1)]"
      "''chatter''" "Some 100" 9 "msg_of 4" "ZenohQuery 3" "ZenohReply (z_reply_sample 2)"]
  by (simp add: new_subscription_def new_service_def new_client_def new_callback_data_def)

section \<open>Properties of the reply handler\<close>

text \<open>
  C4. For a reply delivered to \<open>client_data_handler\<close> with a client: when the reply is
  malformed (\<open>z_reply_check\<close> fails) or is not tagged as success (\<open>z_reply_is_ok\<close> fails),
  the handler leaves the client, and so its reply queue, and the reply handle as they were
  and emits exactly one effect, an error record of the logger; when the reply is a success,
  the reply is appended at the tail of the reply queue, the reply handle is set to
  \<open>z_reply_null()\<close>, and no error is reported. The handler returns in every case.
\<close>

theorem client_data_handler_drops_or_queues:
  "(\<not> (z_reply_check reply \<and> z_reply_is_ok reply) \<longrightarrow>
      fst (client_data_handler reply (Some c)) = (reply, Some c)
      \<and> (\<exists>txt. snd (client_data_handler reply (Some c)) =
            [RCUTILS_LOG_NAMED ERROR ''rmw_zenoh_cpp'' txt]))
   \<and> (z_reply_check reply \<and> z_reply_is_ok reply \<longrightarrow>
      (\<exists>c'. fst (client_data_handler reply (Some c)) = (z_reply_null, Some c')
         \<and> reply_queue c' = reply_queue c @ [ZenohReply reply])
      \<and> filter is_error (snd (client_data_handler reply (Some c))) = [])"
  by (cases reply)
    (simp_all add: client_data_handler_def add_new_reply_def trigger_user_callback_def
      notify_def Let_def split: option.splits)

theorem client_data_handler_drops_or_queues_witness:
  "\<not> (z_reply_check (z_reply_error 7) \<and> z_reply_is_ok (z_reply_error 7))
   \<and> fst (client_data_handler (z_reply_error 7) (Some (new_client 0))) =
        (z_reply_error 7, Some (new_client 0))
   \<and> \<not> (z_reply_check z_reply_null \<and> z_reply_is_ok z_reply_null)
   \<and> fst (client_data_handler z_reply_null (Some (new_client 0))) =
        (z_reply_null, Some (new_client 0))
   \<and> z_reply_check (z_reply_sample 5) \<and> z_reply_is_ok (z_reply_sample 5)
   \<and> (\<exists>c'. fst (client_data_handler (z_reply_sample 5) (Some (new_client 0))) =
          (z_reply_null, Some c')
        \<and> reply_queue c' = reply_queue (new_client 0) @ [ZenohReply (z_reply_sample 5)])"
  using client_data_handler_drops_or_queues [of "z_reply_error 7" "new_client 0"]
    client_data_handler_drops_or_queues [of z_reply_null "new_client 0"]
    client_data_handler_drops_or_queues [of "z_reply_sample 5" "new_client 0"]
  by simp

section \<open>Properties of the pops\<close>

text \<open>
  A reply pushed onto a reply queue that already holds an older reply is not what the next
  pop returns: the pop returns the older reply.
\<close>

theorem pop_after_push_returns_older:
  "fst (pop_next_reply (fst (add_new_reply (ZenohReply (z_reply_sample 2))
      (fst (add_new_reply (ZenohReply (z_reply_sample 1)) (new_client 0))))))
     = Some (ZenohReply (z_reply_sample 1))
   \<and> fst (pop_next_reply (fst (add_new_reply (ZenohReply (z_reply_sample 2))
      (fst (add_new_reply (ZenohReply (z_reply_sample 1)) (new_client 0))))))
     \<noteq> Some (ZenohReply (z_reply_sample 2))"
  by (simp add: pop_next_reply_def add_new_reply_def trigger_user_callback_def notify_def
      new_client_def new_callback_data_def Let_def)

lemma add_new_query_queue: "query_queue (fst (add_new_query x s)) = query_queue s @ [x]"
  by (simp add: add_new_query_def Let_def split: prod.splits)

lemma add_new_reply_queue: "reply_queue (fst (add_new_reply x s)) = reply_queue s @ [x]"
  by (simp add: add_new_reply_def Let_def split: prod.splits)

text \<open>
  C5 (amended). For the message, query and reply queue: a pop immediately after \<open>push x\<close>
  onto an empty queue returns \<open>x\<close>. After \<open>push x\<close> onto a query or reply queue that is not
  empty, or onto a message queue that is not empty and is below its depth, the pop returns
  the element that was at the head and leaves the rest in push order, with \<open>x\<close> at the
  tail. After \<open>push x\<close> onto a message queue at its depth the push has dropped the head, and
  the pop returns the oldest element that remains: \<open>x\<close> itself, leaving the queue empty,
  when the queue held a single element, and otherwise the second element, leaving the rest
  with \<open>x\<close> at the tail. A pop on an empty queue returns null and leaves the entity as it
  was. A pop has no effect besides the change of the queue: it does not wait and reports no
  error.
\<close>

theorem pop_returns_oldest:
  "(message_queue sub = [] \<longrightarrow>
      fst (pop_next_message (fst (add_new_message m t sub))) = Some m
      \<and> pop_next_message sub = (None, sub))
   \<and> (message_queue sub = m' # ms \<and> length (m' # ms) < depth (adapted_qos_profile sub) \<longrightarrow>
      fst (pop_next_message (fst (add_new_message m t sub))) = Some m'
      \<and> message_queue (snd (pop_next_message (fst (add_new_message m t sub)))) = ms @ [m])
   \<and> (message_queue sub = [m'] \<and> 1 \<ge> depth (adapted_qos_profile sub) \<longrightarrow>
      fst (pop_next_message (fst (add_new_message m t sub))) = Some m
      \<and> message_queue (snd (pop_next_message (fst (add_new_message m t sub)))) = [])
   \<and> (message_queue sub = m' # m'' # ms'
        \<and> length (m' # m'' # ms') \<ge> depth (adapted_qos_profile sub) \<longrightarrow>
      fst (pop_next_message (fst (add_new_message m t sub))) = Some m''
      \<and> message_queue (snd (pop_next_message (fst (add_new_message m t sub)))) = ms' @ [m])
   \<and> (query_queue svc = [] \<longrightarrow>
      fst (pop_next_query (fst (add_new_query q svc))) = Some q
      \<and> pop_next_query svc = (None, svc))
   \<and> (query_queue svc = q' # qs \<longrightarrow>
      fst (pop_next_query (fst (add_new_query q svc))) = Some q'
      \<and> query_queue (snd (pop_next_query (fst (add_new_query q svc)))) = qs @ [q])
   \<and> (reply_queue cli = [] \<longrightarrow>
      fst (pop_next_reply (fst (add_new_reply r cli))) = Some r
      \<and> pop_next_reply cli = (None, cli))
   \<and> (reply_queue cli = r' # rs \<longrightarrow>
      fst (pop_next_reply (fst (add_new_reply r cli))) = Some r'
      \<and> reply_queue (snd (pop_next_reply (fst (add_new_reply r cli)))) = rs @ [r])"
proof -
  have msg: "message_queue (fst (add_new_message m t sub)) =
      (if length (message_queue sub) \<ge> depth (adapted_qos_profile sub)
       then tl (message_queue sub) else message_queue sub) @ [m]"
    by (rule add_new_message_queue)
  have 1: "message_queue sub = [] \<longrightarrow>
      fst (pop_next_message (fst (add_new_message m t sub))) = Some m
      \<and> pop_next_message sub = (None, sub)"
    by (simp add: pop_next_message_def msg)
  have 2: "message_queue sub = m' # ms \<and> length (m' # ms) < depth (adapted_qos_profile sub) \<longrightarrow>
      fst (pop_next_message (fst (add_new_message m t sub))) = Some m'
      \<and> message_queue (snd (pop_next_message (fst (add_new_message m t sub)))) = ms @ [m]"
    by (simp add: pop_next_message_def msg)
  have 3: "message_queue sub = [m'] \<and> 1 \<ge> depth (adapted_qos_profile sub) \<longrightarrow>
      fst (pop_next_message (fst (add_new_message m t sub))) = Some m
      \<and> message_queue (snd (pop_next_message (fst (add_new_message m t sub)))) = []"
    by (simp add: pop_next_message_def msg)
  have 4: "message_queue sub = m' # m'' # ms'
        \<and> length (m' # m'' # ms') \<ge> depth (adapted_qos_profile sub) \<longrightarrow>
      fst (pop_next_message (fst (add_new_message m t sub))) = Some m''
      \<and> message_queue (snd (pop_next_message (fst (add_new_message m t sub)))) = ms' @ [m]"
    by (simp add: pop_next_message_def msg)
  have 5: "query_queue svc = [] \<longrightarrow>
      fst (pop_next_query (fst (add_new_query q svc))) = Some q
      \<and> pop_next_query svc = (None, svc)"
    by (simp add: pop_next_query_def add_new_query_queue)
  have 6: "query_queue svc = q' # qs \<longrightarrow>
      fst (pop_next_query (fst (add_new_query q svc))) = Some q'
      \<and> query_queue (snd (pop_next_query (fst (add_new_query q svc)))) = qs @ [q]"
    by (simp add: pop_next_query_def add_new_query_queue)
  have 7: "reply_queue cli = [] \<longrightarrow>
      fst (pop_next_reply (fst (add_new_reply r cli))) = Some r
      \<and> pop_next_reply cli = (None, cli)"
    by (simp add: pop_next_reply_def add_new_reply_queue)
  have 8: "reply_queue cli = r' # rs \<longrightarrow>
      fst (pop_next_reply (fst (add_new_reply r cli))) = Some r'
      \<and> reply_queue (snd (pop_next_reply (fst (add_new_reply r cli)))) = rs @ [r]"
    by (simp add: pop_next_reply_def add_new_reply_queue)
  from 1 2 3 4 5 6 7 8 show ?thesis by (intro conjI)
qed

theorem pop_returns_oldest_witness:
  "message_queue (new_subscription 2) = []
   \<and> fst (pop_next_message (fst (add_new_message (msg_of 1) ''chatter'' (new_subscription 2)))) =
       Some (msg_of 1)
   \<and> pop_next_message (new_subscription 2) = (None, new_subscription 2)
   \<and> query_queue new_service = []
   \<and> fst (pop_next_query (fst (add_new_query (ZenohQuery 1) new_service))) = Some (ZenohQuery 1)
   \<and> pop_next_query new_service = (None, new_service)
   \<and> reply_queue (new_client 0) = []
   \<and> fst (pop_next_reply (fst (add_new_reply (ZenohReply (z_reply_sample 1)) (new_client 0)))) =
       Some (ZenohReply (z_reply_sample 1))
   \<and> pop_next_reply (new_client 0) = (None, new_client 0)
   \<and> message_queue ((new_subscription 2)\<lparr>message_queue := [msg_of 1]\<rparr>) = [msg_of 1]
   \<and> length [msg_of 1] < depth (adapted_qos_profile
        ((new_subscription 2)\<lparr>message_queue := [msg_of 1]\<rparr>))
   \<and> fst (pop_next_message (fst (add_new_message (msg_of 2) ''chatter''
        ((new_subscription 2)\<lparr>message_queue := [msg_of 1]\<rparr>)))) = Some (msg_of 1)
   \<and> message_queue ((new_subscription 1)\<lparr>message_queue := [msg_of 1]\<rparr>) = [msg_of 1]
   \<and> 1 \<ge> depth (adapted_qos_profile ((new_subscription 1)\<lparr>message_queue := [msg_of 1]\<rparr>))
   \<and> fst (pop_next_message (fst (add_new_message (msg_of 2) ''chatter''
        ((new_subscription 1)\<lparr>message_queue := [msg_of 1]\<rparr>)))) = Some (msg_of 2)
   \<and> message_queue (snd (pop_next_message (fst (add_new_message (msg_of 2) ''chatter''
        ((new_subscription 1)\<lparr>message_queue := [msg_of 1]\<rparr>))))) = []
   \<and> message_queue ((new_subscription 2)\<lparr>message_queue := [msg_of 1, msg_of 2]\<rparr>) =
        [msg_of 1, msg_of 2]
   \<and> length [msg_of 1, msg_of 2] \<ge> depth (adapted_qos_profile
        ((new_subscription 2)\<lparr>message_queue := [msg_of 1, msg_of 2]\<rparr>))
   \<and> fst (pop_next_message (fst (add_new_message (msg_of 3) ''chatter''
        ((new_subscription 2)\<lparr>message_queue := [msg_of 1, msg_of 2]\<rparr>)))) = Some (msg_of 2)
   \<and> message_queue (snd (pop_next_message (fst (add_new_message (msg_of 3) ''chatter''
        ((new_subscription 2)\<lparr>message_queue := [msg_of 1, msg_of 2]\<rparr>))))) = [msg_of 3]
   \<and> query_queue (new_service\<lparr>query_queue := [ZenohQuery 1]\<rparr>) = [ZenohQuery 1]
   \<and> fst (pop_next_query (fst (add_new_query (ZenohQuery 2)
        (new_service\<lparr>query_queue := [ZenohQuery 1]\<rparr>)))) = Some (ZenohQuery 1)
   \<and> reply_queue ((new_client 0)\<lparr>reply_queue := [ZenohReply (z_reply_sample 1)]\<rparr>) =
        [ZenohReply (z_reply_sample 1)]
   \<and> fst (pop_next_reply (fst (add_new_reply (ZenohReply (z_reply_sample 2))
        ((new_client 0)\<lparr>reply_queue := [ZenohReply (z_reply_sample 1)]\<rparr>)))) =
        Some (ZenohReply (z_reply_sample 1))"
  using pop_returns_oldest [where sub = "new_subscription 2" and m = "msg_of 1"
      and t = "''chatter''" and svc = new_service and q = "ZenohQuery 1"
      and cli = "new_client 0" and r = "ZenohReply (z_reply_sample 1)"]
    pop_returns_oldest [where sub = "(new_subscription 2)\<lparr>message_queue := [msg_of 1]\<rparr>"
      and m = "msg_of 2" and t = "''chatter''" and m' = "msg_of 1" and ms = "[]"
      and svc = "new_service\<lparr>query_queue := [ZenohQuery 1]\<rparr>"
      and q = "ZenohQuery 2" and q' = "ZenohQuery 1" and qs = "[]"
      and cli = "(new_client 0)\<lparr>reply_queue := [ZenohReply (z_reply_sample 1)]\<rparr>"
      and r = "ZenohReply (z_reply_sample 2)" and r' = "ZenohReply (z_reply_sample 1)"
      and rs = "[]"]
    pop_returns_oldest [where sub = "(new_subscription 1)\<lparr>message_queue := [msg_of 1]\<rparr>"
      and m = "msg_of 2" and t = "''chatter''" and m' = "msg_of 1"]
    pop_returns_oldest [where sub = "(new_subscription 2)\<lparr>message_queue := [msg_of 1, msg_of 2]\<rparr>"
      and m = "msg_of 3" and t = "''chatter''" and m' = "msg_of 1" and m'' = "msg_of 2"
      and ms' = "[]"]
  by (simp add: new_subscription_def new_service_def new_client_def)

section \<open>Properties of the event callbacks\<close>

text \<open>
  C7. A call of \<open>event_set_callback\<close>, of a publisher or of a subscription, with an event id
  above \<open>ZENOH_EVENT_ID_MAX\<close> sets the rmw error message and does nothing else: the entity,
  and with it every callback, user-data and unread-count entry, is as before, and no
  callback is called.
\<close>

theorem event_set_callback_out_of_range:
  assumes "event_id > ZENOH_EVENT_ID_MAX h"
  shows "fst (event_set_callback h event_id cb d (pub :: rmw_publisher_data_t)) = pub
    \<and> diagnostics (snd (event_set_callback h event_id cb d pub)) =
        [RMW_SET_ERROR_MSG not_configured_msg]
    \<and> snd (event_set_callback h event_id cb d pub) =
        diagnostics (snd (event_set_callback h event_id cb d pub))
    \<and> invocations (snd (event_set_callback h event_id cb d pub)) = []
    \<and> fst (event_set_callback h event_id cb d (sub :: rmw_subscription_data_t)) = sub
    \<and> diagnostics (snd (event_set_callback h event_id cb d sub)) =
        [RMW_SET_ERROR_MSG not_configured_msg]
    \<and> snd (event_set_callback h event_id cb d sub) =
        diagnostics (snd (event_set_callback h event_id cb d sub))
    \<and> invocations (snd (event_set_callback h event_id cb d sub)) = []"
  using assms by (simp add: event_set_callback_def diagnostics_def)

theorem event_set_callback_out_of_range_witness:
  "(3::nat) > ZENOH_EVENT_ID_MAX detail_hpp_example
   \<and> fst (event_set_callback detail_hpp_example 3 (Some 9) (Some 100) new_publisher) =
       new_publisher
   \<and> fst (event_set_callback detail_hpp_example 3 (Some 9) (Some 100) (new_subscription 1)) =
       new_subscription 1
   \<and> invocations (snd (event_set_callback detail_hpp_example 3 (Some 9) (Some 100)
       (new_subscription 1))) = []
   \<and> diagnostics (snd (event_set_callback detail_hpp_example 3 (Some 9) (Some 100)
       (new_subscription 1))) = [RMW_SET_ERROR_MSG not_configured_msg]"
  using event_set_callback_out_of_range
    [of detail_hpp_example 3 "Some 9" "Some 100" new_publisher "new_subscription 1"]
  by (simp add: detail_hpp_example_def)

section \<open>Properties of the wait-set bridge\<close>

text \<open>
  C8. An entity stores one condition: after \<open>attach_condition cv\<close> the stored condition is
  \<open>cv\<close>, whatever was attached before. \<open>notify\<close> after \<open>attach_condition\<close> of a condition
  notifies that condition once, and nothing else; after \<open>detach_condition\<close>, and on an entity
  as created, \<open>notify\<close> has no effect. \<open>notify\<close> never changes the entity: it only reads the
  stored condition.
\<close>

theorem condition_attach_detach_notify:
  "condition (attach_condition cv s) = cv
   \<and> attach_condition cv (attach_condition cv' s) = attach_condition cv s
   \<and> notify (attach_condition (Some c) s) = [notify_one c]
   \<and> notify (attach_condition (Some c) (attach_condition cv' s)) = [notify_one c]
   \<and> notify (detach_condition s) = []
   \<and> condition (detach_condition s) = None
   \<and> notify (new_subscription D) = []
   \<and> notify new_service = []
   \<and> notify (new_client n) = []"
  by (simp add: attach_condition_def detach_condition_def notify_def
      new_subscription_def new_service_def new_client_def)

section \<open>The severity of the eviction record\<close>

text \<open>
  C9. On a subscription of depth 1 that holds one message, the push of a second message
  drops the first and emits exactly one diagnostic; its severity is \<open>DEBUG\<close>, not \<open>WARN\<close>.
\<close>

theorem eviction_logged_at_debug:
  "message_queue (fst (add_new_message (msg_of 2) ''chatter''
      (fst (add_new_message (msg_of 1) ''chatter'' (new_subscription 1))))) = [msg_of 2]
   \<and> diagnostics (snd (add_new_message (msg_of 2) ''chatter''
      (fst (add_new_message (msg_of 1) ''chatter'' (new_subscription 1))))) =
       [RCUTILS_LOG_NAMED DEBUG ''rmw_zenoh_cpp'' discard_msg]
   \<and> diagnostics (snd (add_new_message (msg_of 2) ''chatter''
      (fst (add_new_message (msg_of 1) ''chatter'' (new_subscription 1))))) \<noteq>
       [RCUTILS_LOG_NAMED WARN ''rmw_zenoh_cpp'' discard_msg]"
  by (simp add: add_new_message_def trigger_user_callback_def notify_def diagnostics_def
      new_subscription_def new_callback_data_def Let_def)

section \<open>Properties of rmw\_take\_event\<close>

text \<open>
  C10. \<open>rmw_take_event\<close> on an event handle of this implementation whose event type the
  table maps to the requested or the offered QoS-incompatible event, with a non-null entity,
  an event status and a \<open>taken\<close> flag: the call returns \<open>RMW_RET_OK\<close>, sets \<open>taken\<close> to true,
  writes 0 to \<open>total_count\<close> and to \<open>total_count_change\<close>, and reports nothing. The result
  is the same for every entity behind the handle, whatever its unread counts.
\<close>

theorem rmw_take_event_reports_zero:
  assumes "implementation_identifier ev = rmw_zenoh_identifier h"
    and "event_map h (event_type ev) = Some z"
    and "z = ZENOH_EVENT_REQUESTED_QOS_INCOMPATIBLE h \<or> z = ZENOH_EVENT_OFFERED_QOS_INCOMPATIBLE h"
    and "data ev = Some e"
  shows "rmw_take_event h (Some ev) (Some ei) (Some t) =
    (RMW_RET_OK, Some (ei\<lparr>total_count := 0, total_count_change := 0\<rparr>), Some True, [])"
  using assms by (auto simp add: rmw_take_event_def)

theorem rmw_take_event_reports_zero_witness:
  "implementation_identifier
      \<lparr>implementation_identifier = ''rmw_zenoh_cpp'',
       data = Some (subscription_data ((new_subscription 1)
         \<lparr>user_callback_data := new_callback_data\<lparr>event_unread_count := (\<lambda>_. 0)(1 := 7)\<rparr>\<rparr>)),
       event_type = 2\<rparr> = rmw_zenoh_identifier detail_hpp_example
   \<and> event_map detail_hpp_example 2 = Some 1
   \<and> (1 = ZENOH_EVENT_REQUESTED_QOS_INCOMPATIBLE detail_hpp_example
        \<or> 1 = ZENOH_EVENT_OFFERED_QOS_INCOMPATIBLE detail_hpp_example)
   \<and> rmw_take_event detail_hpp_example
        (Some \<lparr>implementation_identifier = ''rmw_zenoh_cpp'',
          data = Some (subscription_data ((new_subscription 1)
            \<lparr>user_callback_data := new_callback_data\<lparr>event_unread_count := (\<lambda>_. 0)(1 := 7)\<rparr>\<rparr>)),
          event_type = 2\<rparr>)
        (Some \<lparr>total_count = 5, total_count_change = 3, last_policy_kind = 4\<rparr>) (Some False)
       = (RMW_RET_OK, Some \<lparr>total_count = 0, total_count_change = 0, last_policy_kind = 4\<rparr>,
          Some True, [])"
  using rmw_take_event_reports_zero
    [of "\<lparr>implementation_identifier = ''rmw_zenoh_cpp'',
          data = Some (subscription_data ((new_subscription 1)
            \<lparr>user_callback_data := new_callback_data\<lparr>event_unread_count := (\<lambda>_. 0)(1 := 7)\<rparr>\<rparr>)),
          event_type = 2\<rparr>"
        detail_hpp_example 1
        "subscription_data ((new_subscription 1)
            \<lparr>user_callback_data := new_callback_data\<lparr>event_unread_count := (\<lambda>_. 0)(1 := 7)\<rparr>\<rparr>)"
        "\<lparr>total_count = 5, total_count_change = 3, last_policy_kind = 4\<rparr>" False]
  by (simp add: detail_hpp_example_def)

section \<open>Further properties\<close>

text \<open>
  The length of the message queue never exceeds the depth: a push keeps the bound, for every
  depth of at least 1.
\<close>

theorem add_new_message_length_bound:
  assumes "length (message_queue s) \<le> depth (adapted_qos_profile s)"
    and "1 \<le> depth (adapted_qos_profile s)"
  shows "length (message_queue (fst (add_new_message msg t s)))
           \<le> depth (adapted_qos_profile (fst (add_new_message msg t s)))"
  using assms by (auto simp add: add_new_message_queue add_new_message_depth)

theorem add_new_message_length_bound_witness:
  "length (message_queue ((new_subscription 1)\<lparr>message_queue := [msg_of 1]\<rparr>))
     \<le> depth (adapted_qos_profile ((new_subscription 1)\<lparr>message_queue := [msg_of 1]\<rparr>))
   \<and> 1 \<le> depth (adapted_qos_profile ((new_subscription 1)\<lparr>message_queue := [msg_of 1]\<rparr>))
   \<and> length (message_queue (fst (add_new_message (msg_of 2) ''chatter''
        ((new_subscription 1)\<lparr>message_queue := [msg_of 1]\<rparr>)))) \<le> 1"
  using add_new_message_length_bound
    [of "(new_subscription 1)\<lparr>message_queue := [msg_of 1]\<rparr>" "msg_of 2" "''chatter''"]
  by (simp add: new_subscription_def add_new_message_depth)

text \<open>
  Every push that finds the queue at its depth emits exactly one diagnostic, the record of
  severity \<open>DEBUG\<close> of the logger.
\<close>

theorem add_new_message_one_diagnostic:
  assumes "length (message_queue s) \<ge> depth (adapted_qos_profile s)"
  shows "diagnostics (snd (add_new_message msg t s)) =
           [RCUTILS_LOG_NAMED DEBUG ''rmw_zenoh_cpp'' discard_msg]"
  using assms
  by (simp add: add_new_message_def trigger_user_callback_def notify_def diagnostics_def Let_def
      split: list.splits option.splits)

theorem add_new_message_one_diagnostic_witness:
  "length (message_queue ((new_subscription 1)\<lparr>message_queue := [msg_of 1]\<rparr>))
     \<ge> depth (adapted_qos_profile ((new_subscription 1)\<lparr>message_queue := [msg_of 1]\<rparr>))
   \<and> diagnostics (snd (add_new_message (msg_of 2) ''chatter''
        ((new_subscription 1)\<lparr>message_queue := [msg_of 1]\<rparr>))) =
        [RCUTILS_LOG_NAMED DEBUG ''rmw_zenoh_cpp'' discard_msg]"
  using add_new_message_one_diagnostic
    [of "(new_subscription 1)\<lparr>message_queue := [msg_of 1]\<rparr>" "msg_of 2" "''chatter''"]
  by (simp add: new_subscription_def)

text \<open>
  \<open>event_set_callback\<close> with an event id in range and a non-null callback, when \<open>n > 0\<close>
  events of that id are unread: the callback and the user data are stored under the id, the
  callback is called exactly once, with the user data and \<open>n\<close>, and the unread count of the
  id is reset to 0; the entries of every other id are as before.
\<close>

theorem event_set_callback_flushes:
  assumes "event_id \<le> ZENOH_EVENT_ID_MAX h"
    and "event_unread_count (user_callback_data s) event_id = n" and "0 < n"
  shows "invocations (snd (event_set_callback h event_id (Some cb) d s)) = [(cb, d, n)]
    \<and> event_callback (user_callback_data (fst (event_set_callback h event_id (Some cb) d s)))
        = (event_callback (user_callback_data s))(event_id := Some cb)
    \<and> event_data (user_callback_data (fst (event_set_callback h event_id (Some cb) d s)))
        = (event_data (user_callback_data s))(event_id := d)
    \<and> event_unread_count (user_callback_data (fst (event_set_callback h event_id (Some cb) d s)))
        = (event_unread_count (user_callback_data s))(event_id := 0)"
  using assms by (simp add: event_set_callback_def Let_def)

theorem event_set_callback_flushes_witness:
  "(1::nat) \<le> ZENOH_EVENT_ID_MAX detail_hpp_example
   \<and> event_unread_count (user_callback_data ((new_subscription 1)
        \<lparr>user_callback_data := new_callback_data\<lparr>event_unread_count := (\<lambda>_. 0)(1 := 7)\<rparr>\<rparr>)) 1 = 7
   \<and> (0::nat) < 7
   \<and> invocations (snd (event_set_callback detail_hpp_example 1 (Some 9) (Some 100)
        ((new_subscription 1)
          \<lparr>user_callback_data := new_callback_data\<lparr>event_unread_count := (\<lambda>_. 0)(1 := 7)\<rparr>\<rparr>)))
       = [(9, Some 100, 7)]"
  using event_set_callback_flushes [of 1 detail_hpp_example "(new_subscription 1)
        \<lparr>user_callback_data := new_callback_data\<lparr>event_unread_count := (\<lambda>_. 0)(1 := 7)\<rparr>\<rparr>"
        7 9 "Some 100"]
  by (simp add: detail_hpp_example_def new_subscription_def)

end
